theory Spec2Isabelle
  imports Complex_Main
begin

section \<open>The pendulum simulation of Pendulum.js\<close>

text \<open>
  The source is one React component file. JavaScript numbers are idealised as
  real numbers: \<open>Math.sin\<close>, \<open>Math.cos\<close>, \<open>Math.abs\<close> and \<open>Math.pow\<close> are the
  functions of analysis, and no rounding is modelled. The hooks of a component
  (\<open>useState\<close>) become the fields of a record; an event handler or a frame callback is
  a function from the record before the event to the record after it. A handler reads
  the values its closure captured at the last render, so every right-hand side below
  reads the record \<^emph>\<open>before\<close> the event, also where an earlier statement of the same
  handler has already called a setter.
\<close>

subsection \<open>Vectors of the scene\<close>

record Vector3 =
  vx :: real
  vy :: real
  vz :: real

definition subVectors :: "Vector3 \<Rightarrow> Vector3 \<Rightarrow> Vector3" where
  "subVectors a b = \<lparr>vx = vx a - vx b, vy = vy a - vy b, vz = vz a - vz b\<rparr>"

definition vlength :: "Vector3 \<Rightarrow> real" where
  "vlength v = sqrt (vx v * vx v + vy v * vy v + vz v * vz v)"

text \<open>\<open>Vector3.normalize\<close> divides by the length, or by 1 when the length is 0.\<close>

definition normalize :: "Vector3 \<Rightarrow> Vector3" where
  "normalize v =
     (let l = (if vlength v = 0 then 1 else vlength v)
      in \<lparr>vx = vx v / l, vy = vy v / l, vz = vz v / l\<rparr>)"

definition distanceTo :: "Vector3 \<Rightarrow> Vector3 \<Rightarrow> real" where
  "distanceTo a b = vlength (subVectors a b)"

text \<open>
  \<open>Math.atan2 y x\<close> on reals: the angle of the point \<open>(x, y)\<close> in \<open>(-pi, pi]\<close>, and 0
  at the origin. The reals have one zero, so the negative x axis has the angle \<open>pi\<close>, as
  \<open>Math.atan2\<close> gives it for \<open>y = +0\<close>.
\<close>

definition atan2 :: "real \<Rightarrow> real \<Rightarrow> real" where
  "atan2 y x =
     (if 0 < x then arctan (y / x)
      else if x < 0 then (if 0 \<le> y then arctan (y / x) + pi else arctan (y / x) - pi)
      else if 0 < y then pi / 2
      else if y < 0 then - (pi / 2)
      else 0)"

subsection \<open>The state of the \<open>Pendulum\<close> component\<close>

text \<open>
  The six \<open>useState\<close> cells of lines 14 to 19, and \<open>rotation_z\<close> for
  \<open>pivot.current.rotation.z\<close>, the rotation of the group that holds rod and bob (0 until
  a handler writes it).
\<close>

record Pendulum =
  isDragging :: bool
  isClickedDown :: bool
  angle :: real
  velocity :: real
  amplitude :: real
  lastGravityOn :: bool
  rotation_z :: real

definition initialPendulum :: Pendulum where
  "initialPendulum =
     \<lparr>isDragging = True, isClickedDown = False, angle = pi / 2, velocity = 0,
      amplitude = pi / 2, lastGravityOn = True, rotation_z = 0\<rparr>"

text \<open>The constant \<open>length\<close> of line 20.\<close>

definition length_rod :: real where
  "length_rod = 2"

text \<open>The props of the component: the two toggles of \<open>PendulumScene\<close>.\<close>

record Props =
  isSwinging :: bool
  gravityOn :: bool

definition initialProps :: Props where
  "initialProps = \<lparr>isSwinging = True, gravityOn = False\<rparr>"

record Energy =
  kineticEnergy :: real
  potentialEnergy :: real
  mechanicalEnergy :: real

subsection \<open>Pointer handlers\<close>

text \<open>
  Both handlers build a ray from the event and the camera and intersect it with the
  plane \<open>z = 0\<close>; camera and raycaster belong to the rendering library, so the handlers
  take the intersection point \<open>p\<close> as their argument.
\<close>

definition calculateAngleFromMouse :: "Vector3 \<Rightarrow> real" where
  "calculateAngleFromMouse p =
     (let pivotPosition = \<lparr>vx = 0, vy = 0, vz = 0\<rparr>;
          direction = normalize (subVectors p pivotPosition)
      in atan2 (vy direction) (vx direction))"

text \<open>
  \<open>sphere.current.position\<close> is the \<open>position\<close> property of the bob's mesh, set by the
  JSX attribute \<open>position={[0, -length, 0]}\<close>: the position inside the pivot group.
\<close>

definition sphere_position :: Vector3 where
  "sphere_position = \<lparr>vx = 0, vy = - length_rod, vz = 0\<rparr>"

definition handlePointerDown :: "Vector3 \<Rightarrow> Pendulum \<Rightarrow> Pendulum" where
  "handlePointerDown p s =
     (let distanceToSphere = distanceTo p sphere_position
      in if distanceToSphere < 0.5
         then (let newAngle = calculateAngleFromMouse p
               in s\<lparr>isDragging := True, isClickedDown := True, angle := newAngle,
                    velocity := 0, amplitude := \<bar>newAngle\<bar>\<rparr>)
         else s)"

definition handlePointerMove :: "Vector3 \<Rightarrow> Pendulum \<Rightarrow> Pendulum" where
  "handlePointerMove p s =
     (if isDragging s \<and> isClickedDown s
      then (let newAngle = calculateAngleFromMouse p
            in s\<lparr>angle := newAngle + pi / 2, rotation_z := newAngle + pi / 2\<rparr>)
      else s)"

definition handlePointerUp :: "Pendulum \<Rightarrow> Pendulum" where
  "handlePointerUp s = s\<lparr>isDragging := False, isClickedDown := False\<rparr>"

subsection \<open>The frame callback\<close>

text \<open>
  \<open>useFrame\<close> runs once per rendered frame. \<open>now\<close> is the value of \<open>Date.now()\<close>, in
  whole milliseconds. The result is the state after the frame and the argument of the
  call of \<open>onEnergyUpdate\<close>, if the frame makes one.
\<close>

definition energyOf :: "real \<Rightarrow> real \<Rightarrow> Energy" where
  "energyOf newAngle newVelocity =
     (let kinetic = 0.5 * (length_rod * newVelocity) ^ 2;
          potential = 0.001 * length_rod * (1 - cos newAngle)
      in \<lparr>kineticEnergy = kinetic, potentialEnergy = potential,
          mechanicalEnergy = kinetic + potential\<rparr>)"

definition useFrame :: "Props \<Rightarrow> int \<Rightarrow> Pendulum \<Rightarrow> Pendulum \<times> Energy option" where
  "useFrame props now s =
     (let s1 = (if lastGravityOn s \<noteq> gravityOn props \<and> \<not> gravityOn props
                then s\<lparr>amplitude := angle s\<rparr> else s);
          s2 = s1\<lparr>lastGravityOn := gravityOn props\<rparr>
      in if isSwinging props \<and> \<not> isDragging s then
           (if gravityOn props then
              (let prevAngle = angle s;
                   acceleration = - 0.001 * sin prevAngle;
                   newVelocity = (velocity s + acceleration) * 0.999;
                   newAngle = prevAngle + newVelocity
               in (s2\<lparr>rotation_z := newAngle, velocity := newVelocity, angle := newAngle\<rparr>,
                   Some (energyOf newAngle newVelocity)))
            else
              (let newAngle = amplitude s * sin (real_of_int now * 0.002)
               in (s2\<lparr>rotation_z := newAngle, angle := newAngle\<rparr>, None)))
         else (s2, None))"

text \<open>A run of frames: the props and the clock reading of each frame, in order.\<close>

fun frames :: "(Props \<times> int) list \<Rightarrow> Pendulum \<Rightarrow> Pendulum" where
  "frames [] s = s"
| "frames ((props, now) # ticks) s = frames ticks (fst (useFrame props now s))"

text \<open>
  The scene graph of lines 122 to 132: the bob's mesh is a child of the pivot group, so
  it is drawn at its own \<open>position\<close> turned about the z axis by the group's rotation.
\<close>

definition applyRotationZ :: "real \<Rightarrow> Vector3 \<Rightarrow> Vector3" where
  "applyRotationZ r v =
     \<lparr>vx = vx v * cos r - vy v * sin r, vy = vx v * sin r + vy v * cos r, vz = vz v\<rparr>"

definition bobWorldPosition :: "real \<Rightarrow> Vector3" where
  "bobWorldPosition r = applyRotationZ r sphere_position"

subsection \<open>The energy history of \<open>PendulumScene\<close>\<close>

record EnergyData =
  mechanicalEnergyS :: "real list"
  potentialEnergyS :: "real list"
  kineticEnergyS :: "real list"
  time :: "int list"

definition initialEnergyData :: EnergyData where
  "initialEnergyData =
     \<lparr>mechanicalEnergyS = [], potentialEnergyS = [], kineticEnergyS = [], time = []\<rparr>"

definition handleEnergyUpdate :: "EnergyData \<Rightarrow> Energy \<Rightarrow> EnergyData" where
  "handleEnergyUpdate prevState energy =
     (let t = (if length (time prevState) \<noteq> 0 then last (time prevState) + 1 else 0)
      in \<lparr>mechanicalEnergyS = mechanicalEnergyS prevState @ [mechanicalEnergy energy],
          potentialEnergyS = potentialEnergyS prevState @ [potentialEnergy energy],
          kineticEnergyS = kineticEnergyS prevState @ [kineticEnergy energy],
          time = time prevState @ [t]\<rparr>)"

text \<open>The history after a sequence of samples, each passed to \<open>handleEnergyUpdate\<close>.\<close>

definition appendAll :: "EnergyData \<Rightarrow> Energy list \<Rightarrow> EnergyData" where
  "appendAll d es = foldl handleEnergyUpdate d es"

subsection \<open>Two reachable states\<close>

text \<open>
  \<open>releasedAtBottom\<close>: from the initial state, the pointer goes down on the bob where it
  is first drawn, \<open>(0, -2, 0)\<close>, and up again. \<open>releasedAtRight\<close>: the pointer goes down
  there, drags the bob to \<open>(2, 0, 0)\<close>, level with the pivot, and goes up. Every move of
  a drag overwrites what the move before it wrote (\<open>handlePointerMove_last\<close> below), so
  only the last point of the drag is listed.
\<close>

definition releasedAtBottom :: Pendulum where
  "releasedAtBottom =
     handlePointerUp (handlePointerDown \<lparr>vx = 0, vy = - 2, vz = 0\<rparr> initialPendulum)"

definition releasedAtRight :: Pendulum where
  "releasedAtRight =
     handlePointerUp
       (handlePointerMove \<lparr>vx = 2, vy = 0, vz = 0\<rparr>
          (handlePointerDown \<lparr>vx = 0, vy = - 2, vz = 0\<rparr> initialPendulum))"

subsection \<open>Runs of the component\<close>





section \<open>Frames keep the dragging flag\<close>

lemma useFrame_isDragging: "isDragging (fst (useFrame props now s)) = isDragging s"
  by (simp add: useFrame_def Let_def)

lemma useFrame_rest:
  assumes "isSwinging props" "gravityOn props" "\<not> isDragging s" "angle s = 0" "velocity s = 0"
  shows "angle (fst (useFrame props now s)) = 0 \<and> velocity (fst (useFrame props now s)) = 0"
  using assms by (simp add: useFrame_def Let_def)

lemma frames_rest:
  "\<forall>(props, now) \<in> set ticks. isSwinging props \<and> gravityOn props \<Longrightarrow>
   \<not> isDragging s \<Longrightarrow> angle s = 0 \<Longrightarrow> velocity s = 0 \<Longrightarrow>
   angle (frames ticks s) = 0 \<and> velocity (frames ticks s) = 0"
proof (induction ticks arbitrary: s)
  case Nil
  then show ?case by simp
next
  case (Cons t ticks)
  obtain props now where t: "t = (props, now)" by (cases t)
  with Cons.prems have p: "isSwinging props" "gravityOn props" by auto
  have r: "angle (fst (useFrame props now s)) = 0 \<and> velocity (fst (useFrame props now s)) = 0"
    using useFrame_rest [OF p Cons.prems(2,3,4)] .
  have "angle (frames ticks (fst (useFrame props now s))) = 0 \<and>
        velocity (frames ticks (fst (useFrame props now s))) = 0"
    using Cons.prems(1,2) r by (intro Cons.IH) (auto simp: useFrame_isDragging)
  then show ?case by (simp add: t)
qed

section \<open>The integrator\<close>

text \<open>
  Claim C1. A frame with \<open>isSwinging\<close> true, \<open>isDragging\<close> false and
  \<open>gravityOn\<close> true takes angle \<open>a\<close> and velocity \<open>v\<close> to the velocity
  \<open>(v + (-0.001 * sin a)) * 0.999\<close> and the angle \<open>a\<close> plus that new velocity. From
  angle \<open>pi / 2\<close> at rest, one frame gives velocity \<open>-0.000999\<close> and angle
  \<open>pi / 2 - 0.000999\<close>. Angle 0 at rest is a fixed point: it stays so over any run of
  such frames.
\<close>

theorem gravity_on_step:
  assumes "isSwinging props" "\<not> isDragging s" "gravityOn props"
  shows "velocity (fst (useFrame props now s)) = (velocity s + (- 0.001 * sin (angle s))) * 0.999 \<and>
         angle (fst (useFrame props now s)) = angle s + velocity (fst (useFrame props now s)) \<and>
         (angle s = pi / 2 \<and> velocity s = 0 \<longrightarrow>
            velocity (fst (useFrame props now s)) = - 0.000999 \<and>
            angle (fst (useFrame props now s)) = pi / 2 - 0.000999) \<and>
         (angle s = 0 \<and> velocity s = 0 \<longrightarrow>
            (\<forall>ticks. (\<forall>(q, t) \<in> set ticks. isSwinging q \<and> gravityOn q) \<longrightarrow>
               angle (frames ticks s) = 0 \<and> velocity (frames ticks s) = 0))"
proof -
  have a: "velocity (fst (useFrame props now s)) = (velocity s + (- 0.001 * sin (angle s))) * 0.999"
    using assms by (simp add: useFrame_def Let_def)
  have b: "angle (fst (useFrame props now s)) = angle s + velocity (fst (useFrame props now s))"
    using assms by (simp add: useFrame_def Let_def)
  have c: "angle s = pi / 2 \<and> velocity s = 0 \<longrightarrow>
            velocity (fst (useFrame props now s)) = - 0.000999 \<and>
            angle (fst (useFrame props now s)) = pi / 2 - 0.000999"
  proof (intro impI, elim conjE)
    assume h: "angle s = pi / 2" "velocity s = 0"
    have "velocity (fst (useFrame props now s)) = - 0.000999"
      unfolding a h by simp
    then show "velocity (fst (useFrame props now s)) = - 0.000999 \<and>
            angle (fst (useFrame props now s)) = pi / 2 - 0.000999"
      unfolding b h by simp
  qed
  have d: "angle s = 0 \<and> velocity s = 0 \<longrightarrow>
            (\<forall>ticks. (\<forall>(q, t) \<in> set ticks. isSwinging q \<and> gravityOn q) \<longrightarrow>
               angle (frames ticks s) = 0 \<and> velocity (frames ticks s) = 0)"
    using assms(2) frames_rest by blast
  from a b c d show ?thesis by blast
qed

text \<open>
  The hypotheses of C1 hold after the first pointer-up from the initial state, with both
  toggles on; the second part starts from the same state with angle 0.
\<close>

theorem gravity_on_step_witness:
  "isSwinging \<lparr>isSwinging = True, gravityOn = True\<rparr> \<and>
   \<not> isDragging (handlePointerUp initialPendulum) \<and>
   gravityOn \<lparr>isSwinging = True, gravityOn = True\<rparr> \<and>
   angle (handlePointerUp initialPendulum) = pi / 2 \<and>
   velocity (handlePointerUp initialPendulum) = 0 \<and>
   velocity (fst (useFrame \<lparr>isSwinging = True, gravityOn = True\<rparr> 0 (handlePointerUp initialPendulum)))
     = - 0.000999 \<and>
   angle (fst (useFrame \<lparr>isSwinging = True, gravityOn = True\<rparr> 0 (handlePointerUp initialPendulum)))
     = pi / 2 - 0.000999 \<and>
   angle (frames [(\<lparr>isSwinging = True, gravityOn = True\<rparr>, 0), (\<lparr>isSwinging = True, gravityOn = True\<rparr>, 16)]
            (handlePointerUp (initialPendulum\<lparr>angle := 0\<rparr>))) = 0 \<and>
   velocity (frames [(\<lparr>isSwinging = True, gravityOn = True\<rparr>, 0), (\<lparr>isSwinging = True, gravityOn = True\<rparr>, 16)]
            (handlePointerUp (initialPendulum\<lparr>angle := 0\<rparr>))) = 0"
proof -
  let ?P = "\<lparr>isSwinging = True, gravityOn = True\<rparr>"
  have h: "isSwinging ?P" "gravityOn ?P" "\<not> isDragging (handlePointerUp initialPendulum)"
    "\<not> isDragging (handlePointerUp (initialPendulum\<lparr>angle := 0\<rparr>))"
    by (simp_all add: handlePointerUp_def)
  have i: "angle (handlePointerUp initialPendulum) = pi / 2"
    "velocity (handlePointerUp initialPendulum) = 0"
    "angle (handlePointerUp (initialPendulum\<lparr>angle := 0\<rparr>)) = 0"
    "velocity (handlePointerUp (initialPendulum\<lparr>angle := 0\<rparr>)) = 0"
    by (simp_all add: handlePointerUp_def initialPendulum_def)
  have t: "\<forall>(q, t) \<in> set [(?P, 0::int), (?P, 16)]. isSwinging q \<and> gravityOn q"
    by simp
  from gravity_on_step [OF h(1) h(3) h(2), of 0] i(1,2)
  have one: "velocity (fst (useFrame ?P 0 (handlePointerUp initialPendulum))) = - 0.000999 \<and>
     angle (fst (useFrame ?P 0 (handlePointerUp initialPendulum))) = pi / 2 - 0.000999"
    by blast
  from gravity_on_step [OF h(1) h(4) h(2), of 0] i(3,4) t
  have two: "angle (frames [(?P, 0), (?P, 16)] (handlePointerUp (initialPendulum\<lparr>angle := 0\<rparr>))) = 0 \<and>
     velocity (frames [(?P, 0), (?P, 16)] (handlePointerUp (initialPendulum\<lparr>angle := 0\<rparr>))) = 0"
    by blast
  from h i one two show ?thesis by blast
qed

section \<open>The energy sampler\<close>

lemma useFrame_sample:
  "snd (useFrame props now s) =
     (if isSwinging props \<and> \<not> isDragging s \<and> gravityOn props
      then Some (energyOf (angle (fst (useFrame props now s))) (velocity (fst (useFrame props now s))))
      else None)"
  by (simp add: useFrame_def Let_def)

lemma energyOf_fields:
  "energyOf a v = \<lparr>kineticEnergy = 0.5 * (2 * v) ^ 2, potentialEnergy = 0.001 * 2 * (1 - cos a),
      mechanicalEnergy = 0.5 * (2 * v) ^ 2 + 0.001 * 2 * (1 - cos a)\<rparr>"
  by (simp add: energyOf_def Let_def length_rod_def)

text \<open>
  Claim C2. A frame calls \<open>onEnergyUpdate\<close> if and only if \<open>isSwinging\<close> is true,
  \<open>isDragging\<close> is false and \<open>gravityOn\<close> is true. The sample is computed from the
  angle and velocity the same frame has just written: kinetic energy
  \<open>0.5 * (2 * velocity)\<^sup>2\<close>, potential energy \<open>0.001 * 2 * (1 - cos angle)\<close>, and their
  sum as mechanical energy. In every other frame (gravity off, dragging, paused) there
  is no sample.
\<close>

theorem energy_sample:
  "(snd (useFrame props now s) \<noteq> None) = (isSwinging props \<and> \<not> isDragging s \<and> gravityOn props) \<and>
   snd (useFrame props now s) =
     (if isSwinging props \<and> \<not> isDragging s \<and> gravityOn props
      then Some \<lparr>kineticEnergy = 0.5 * (2 * velocity (fst (useFrame props now s))) ^ 2,
                 potentialEnergy = 0.001 * 2 * (1 - cos (angle (fst (useFrame props now s)))),
                 mechanicalEnergy = 0.5 * (2 * velocity (fst (useFrame props now s))) ^ 2
                    + 0.001 * 2 * (1 - cos (angle (fst (useFrame props now s))))\<rparr>
      else None)"
proof -
  have "snd (useFrame props now s) =
     (if isSwinging props \<and> \<not> isDragging s \<and> gravityOn props
      then Some \<lparr>kineticEnergy = 0.5 * (2 * velocity (fst (useFrame props now s))) ^ 2,
                 potentialEnergy = 0.001 * 2 * (1 - cos (angle (fst (useFrame props now s)))),
                 mechanicalEnergy = 0.5 * (2 * velocity (fst (useFrame props now s))) ^ 2
                    + 0.001 * 2 * (1 - cos (angle (fst (useFrame props now s))))\<rparr>
      else None)"
    by (subst useFrame_sample) (simp only: energyOf_fields)
  moreover have "(snd (useFrame props now s) \<noteq> None) =
      (isSwinging props \<and> \<not> isDragging s \<and> gravityOn props)"
    by (subst useFrame_sample) simp
  ultimately show ?thesis by blast
qed

section \<open>The gravity-off regime\<close>

text \<open>
  Claim C3. A frame with \<open>isSwinging\<close> true, \<open>isDragging\<close> false and
  \<open>gravityOn\<close> false sets the angle to \<open>amplitude * sin (now * 0.002)\<close>, with the
  amplitude the frame's closure holds and \<open>now\<close> the wall clock in milliseconds. The
  result does not depend on the angle before the frame, and the velocity is left as it
  was.
\<close>

theorem gravity_off_step:
  assumes "isSwinging props" "\<not> isDragging s" "\<not> gravityOn props"
  shows "angle (fst (useFrame props now s)) = amplitude s * sin (real_of_int now * 0.002) \<and>
         velocity (fst (useFrame props now s)) = velocity s \<and>
         (\<forall>a. angle (fst (useFrame props now (s\<lparr>angle := a\<rparr>))) = angle (fst (useFrame props now s)))"
  using assms by (simp add: useFrame_def Let_def)


text \<open>The hypotheses of C3 hold after the first pointer-up, under the initial props.\<close>

theorem gravity_off_step_witness:
  "isSwinging initialProps \<and> \<not> isDragging (handlePointerUp initialPendulum) \<and>
   \<not> gravityOn initialProps \<and>
   angle (fst (useFrame initialProps 0 (handlePointerUp initialPendulum))) = 0 \<and>
   velocity (fst (useFrame initialProps 0 (handlePointerUp initialPendulum))) = 0"
proof -
  have h: "isSwinging initialProps" "\<not> isDragging (handlePointerUp initialPendulum)"
    "\<not> gravityOn initialProps"
    by (simp_all add: initialProps_def handlePointerUp_def)
  from gravity_off_step [OF h, of 0] h show ?thesis
    by (simp add: handlePointerUp_def initialPendulum_def)
qed

section \<open>The initial state\<close>

text \<open>
  Claim C4 says that the component starts with \<open>isDragging\<close> false, so that the
  guard \<open>isSwinging && !isDragging\<close> lets the first frame integrate. Line 14 starts the
  cell at \<open>true\<close>: the claim fails in the initial state.
\<close>

theorem initial_state_counterexample:
  "\<not> (\<not> isDragging initialPendulum \<and> (isSwinging initialProps \<and> \<not> isDragging initialPendulum))"
  by (simp add: initialPendulum_def)

text \<open>While \<open>isDragging\<close> is set, a frame moves nothing and samples nothing.\<close>

lemma useFrame_held:
  "isDragging s \<Longrightarrow> angle (fst (useFrame props now s)) = angle s \<and>
     velocity (fst (useFrame props now s)) = velocity s \<and>
     rotation_z (fst (useFrame props now s)) = rotation_z s \<and>
     snd (useFrame props now s) = None"
  by (simp add: useFrame_def Let_def)

lemma frames_held:
  "isDragging s \<Longrightarrow> isDragging (frames ticks s) \<and> angle (frames ticks s) = angle s \<and>
     velocity (frames ticks s) = velocity s \<and> rotation_z (frames ticks s) = rotation_z s"
proof (induction ticks arbitrary: s)
  case Nil
  then show ?case by simp
next
  case (Cons t ticks)
  obtain props now where t: "t = (props, now)" by (cases t)
  have d: "isDragging (fst (useFrame props now s))"
    using Cons.prems by (simp add: useFrame_isDragging)
  from Cons.IH [OF d] useFrame_held [OF Cons.prems, of props now]
  show ?case by (simp add: t)
qed

text \<open>
  Claim C4, amended. The component starts with \<open>isDragging\<close> true and
  \<open>isClickedDown\<close> false. The guard \<open>isSwinging && !isDragging\<close> then blocks the
  integrator: over any run of frames from the initial state, whatever the props, angle,
  velocity and pivot rotation stay \<open>pi / 2\<close>, 0 and 0, and no frame produces an energy
  sample. A pointer move changes nothing either. The first pointer-up clears
  \<open>isDragging\<close>, and integration is permitted from the next frame on.
\<close>

theorem initial_state_held:
  "isDragging initialPendulum \<and> \<not> isClickedDown initialPendulum \<and>
   isDragging (frames ticks initialPendulum) \<and>
   angle (frames ticks initialPendulum) = pi / 2 \<and>
   velocity (frames ticks initialPendulum) = 0 \<and>
   rotation_z (frames ticks initialPendulum) = 0 \<and>
   snd (useFrame props now (frames ticks initialPendulum)) = None \<and>
   handlePointerMove p initialPendulum = initialPendulum \<and>
   \<not> isDragging (handlePointerUp (frames ticks initialPendulum))"
proof -
  have d: "isDragging initialPendulum" by (simp add: initialPendulum_def)
  have i: "\<not> isClickedDown initialPendulum" "angle initialPendulum = pi / 2"
    "velocity initialPendulum = 0" "rotation_z initialPendulum = 0"
    by (simp_all add: initialPendulum_def)
  have m: "handlePointerMove p initialPendulum = initialPendulum"
    using i(1) by (simp add: handlePointerMove_def)
  have u: "\<not> isDragging (handlePointerUp (frames ticks initialPendulum))"
    by (simp add: handlePointerUp_def)
  from frames_held [OF d, of ticks] have f: "isDragging (frames ticks initialPendulum)"
    "angle (frames ticks initialPendulum) = pi / 2" "velocity (frames ticks initialPendulum) = 0"
    "rotation_z (frames ticks initialPendulum) = 0"
    using i by simp_all
  from useFrame_held [OF f(1), of props now]
  have n: "snd (useFrame props now (frames ticks initialPendulum)) = None" by simp
  from d i(1) f n m u show ?thesis by blast
qed

section \<open>Who writes the amplitude\<close>


section \<open>The energy history\<close>

lemma time_appendAll:
  "time d = map int [0..<n] \<Longrightarrow> time (appendAll d es) = map int [0..<n + length es]"
proof (induction es arbitrary: d n)
  case Nil
  then show ?case by (simp add: appendAll_def)
next
  case (Cons e es)
  have "time (handleEnergyUpdate d e) = map int [0..<Suc n]"
    using Cons.prems by (cases n) (simp_all add: handleEnergyUpdate_def Let_def)
  from Cons.IH [OF this] show ?case by (simp add: appendAll_def)
qed

text \<open>
  Claim C9. \<open>handleEnergyUpdate\<close> gives the appended sample the time of the last sample
  plus 1, or 0 when the history is empty. Appending \<open>n\<close> samples to the empty history
  gives the times \<open>0, 1, ..., n - 1\<close>, so three samples give \<open>[0, 1, 2]\<close>; no clock is
  read.
\<close>

theorem time_is_tick_counter:
  "time (handleEnergyUpdate d e) =
     time d @ [if time d = [] then 0 else last (time d) + 1] \<and>
   time (appendAll initialEnergyData es) = map int [0..<length es] \<and>
   time (appendAll initialEnergyData [e1, e2, e3]) = [0, 1, 2]"
proof -
  have a: "time (handleEnergyUpdate d e) = time d @ [if time d = [] then 0 else last (time d) + 1]"
    by (simp add: handleEnergyUpdate_def Let_def)
  have b: "time (appendAll initialEnergyData es) = map int [0..<length es]" for es
    using time_appendAll [of initialEnergyData 0 es] by (simp add: initialEnergyData_def)
  have c: "time (appendAll initialEnergyData [e1, e2, e3]) = [0, 1, 2]"
    by (simp add: appendAll_def handleEnergyUpdate_def initialEnergyData_def Let_def)
  from a b c show ?thesis by blast
qed

lemma lengths_appendAll:
  "length (mechanicalEnergyS (appendAll d es)) = length (mechanicalEnergyS d) + length es \<and>
   length (potentialEnergyS (appendAll d es)) = length (potentialEnergyS d) + length es \<and>
   length (kineticEnergyS (appendAll d es)) = length (kineticEnergyS d) + length es \<and>
   length (time (appendAll d es)) = length (time d) + length es"
  unfolding appendAll_def
  by (induction es arbitrary: d) (simp_all add: handleEnergyUpdate_def Let_def)

text \<open>
  Claim C10. Every append extends each of the four series (mechanical, potential and
  kinetic energy, time) by exactly one element at the end and keeps the elements that
  were there. After \<open>n\<close> appends to the empty history each series has length \<open>n\<close>, so
  the four lengths are equal at all times.
\<close>

theorem parallel_series:
  "mechanicalEnergyS (handleEnergyUpdate d e) = mechanicalEnergyS d @ [mechanicalEnergy e] \<and>
   potentialEnergyS (handleEnergyUpdate d e) = potentialEnergyS d @ [potentialEnergy e] \<and>
   kineticEnergyS (handleEnergyUpdate d e) = kineticEnergyS d @ [kineticEnergy e] \<and>
   butlast (time (handleEnergyUpdate d e)) = time d \<and>
   length (time (handleEnergyUpdate d e)) = Suc (length (time d)) \<and>
   length (mechanicalEnergyS (appendAll initialEnergyData es)) = length es \<and>
   length (potentialEnergyS (appendAll initialEnergyData es)) = length es \<and>
   length (kineticEnergyS (appendAll initialEnergyData es)) = length es \<and>
   length (time (appendAll initialEnergyData es)) = length es"
proof -
  have a: "mechanicalEnergyS (handleEnergyUpdate d e) = mechanicalEnergyS d @ [mechanicalEnergy e]"
    "potentialEnergyS (handleEnergyUpdate d e) = potentialEnergyS d @ [potentialEnergy e]"
    "kineticEnergyS (handleEnergyUpdate d e) = kineticEnergyS d @ [kineticEnergy e]"
    "butlast (time (handleEnergyUpdate d e)) = time d"
    "length (time (handleEnergyUpdate d e)) = Suc (length (time d))"
    by (simp_all add: handleEnergyUpdate_def Let_def)
  from lengths_appendAll [of initialEnergyData es]
  have b: "length (mechanicalEnergyS (appendAll initialEnergyData es)) = length es"
    "length (potentialEnergyS (appendAll initialEnergyData es)) = length es"
    "length (kineticEnergyS (appendAll initialEnergyData es)) = length es"
    "length (time (appendAll initialEnergyData es)) = length es"
    by (simp_all add: initialEnergyData_def)
  from a b show ?thesis by blast
qed


section \<open>The pointer angle\<close>

text \<open>\<open>atan2\<close> recovers the angle of a point of the unit circle, on \<open>(-pi, pi]\<close>.\<close>

lemma atan2_polar_mid:
  assumes "- (pi / 2) < t" "t < pi / 2"
  shows "atan2 (sin t) (cos t) = t"
proof -
  have c: "0 < cos t" using assms by (rule cos_gt_zero_pi)
  have "arctan (sin t / cos t) = t"
    using arctan_tan [OF assms] by (simp add: tan_def)
  with c show ?thesis by (simp add: atan2_def)
qed

lemma atan2_polar_upper:
  assumes "pi / 2 < t" "t \<le> pi"
  shows "atan2 (sin t) (cos t) = t"
proof -
  define u where "u = t - pi"
  have u: "- (pi / 2) < u" "u \<le> 0" "u < pi / 2" using assms by (simp_all add: u_def)
  have c: "0 < cos u" using u(1,3) by (rule cos_gt_zero_pi)
  have s: "sin u \<le> 0"
  proof -
    have "0 \<le> sin (- u)" using u by (intro sin_ge_zero) simp_all
    then show ?thesis by simp
  qed
  have a: "arctan (sin u / cos u) = u"
    using arctan_tan [OF u(1,3)] by (simp add: tan_def)
  have t: "sin t = - sin u" "cos t = - cos u" by (simp_all add: u_def)
  have "atan2 (- sin u) (- cos u) = arctan (sin u / cos u) + pi"
    using c s by (simp add: atan2_def)
  then have "atan2 (sin t) (cos t) = u + pi" by (simp only: t a)
  then show ?thesis by (simp add: u_def)
qed

lemma atan2_polar_lower:
  assumes "- pi < t" "t < - (pi / 2)"
  shows "atan2 (sin t) (cos t) = t"
proof -
  define u where "u = t + pi"
  have u: "0 < u" "u < pi / 2" "- (pi / 2) < u" using assms by (simp_all add: u_def)
  have c: "0 < cos u" using u(3,2) by (rule cos_gt_zero_pi)
  have s: "0 < sin u" using u(1,2) by (rule sin_gt_zero2)
  have a: "arctan (sin u / cos u) = u"
    using arctan_tan [OF u(3,2)] by (simp add: tan_def)
  have t: "sin t = - sin u" "cos t = - cos u" by (simp_all add: u_def)
  have "atan2 (- sin u) (- cos u) = arctan (sin u / cos u) - pi"
    using c s by (simp add: atan2_def)
  then have "atan2 (sin t) (cos t) = u - pi" by (simp only: t a)
  then show ?thesis by (simp add: u_def)
qed

lemma atan2_polar:
  assumes "- pi < t" "t \<le> pi"
  shows "atan2 (sin t) (cos t) = t"
proof -
  consider "t < - (pi / 2)" | "t = - (pi / 2)" | "- (pi / 2) < t \<and> t < pi / 2"
    | "t = pi / 2" | "pi / 2 < t" by linarith
  then show ?thesis
  proof cases
    case 1
    with assms show ?thesis by (simp add: atan2_polar_lower)
  next
    case 2
    show ?thesis unfolding 2 by (simp add: atan2_def)
  next
    case 3
    then show ?thesis by (simp add: atan2_polar_mid)
  next
    case 4
    show ?thesis unfolding 4 by (simp add: atan2_def)
  next
    case 5
    with assms show ?thesis by (simp add: atan2_polar_upper)
  qed
qed

text \<open>Where the bob is drawn under a pivot rotation, and the pointer angle there.\<close>

lemma bobWorldPosition_fields:
  "bobWorldPosition r = \<lparr>vx = 2 * sin r, vy = - (2 * cos r), vz = 0\<rparr>"
  by (simp add: bobWorldPosition_def applyRotationZ_def sphere_position_def length_rod_def)

lemma vlength_bob: "vlength \<lparr>vx = 2 * sin r, vy = - (2 * cos r), vz = 0\<rparr> = 2"
proof -
  have "(2 * sin r) * (2 * sin r) + (- (2 * cos r)) * (- (2 * cos r)) + 0 * 0
          = 4 * (cos r * cos r + sin r * sin r)"
    by algebra
  also have "\<dots> = 4" by (simp only: sin_cos_squared_add3 mult_1_right)
  finally show ?thesis by (simp add: vlength_def)
qed

lemma angle_of_bob: "calculateAngleFromMouse (bobWorldPosition r) = atan2 (- cos r) (sin r)"
proof -
  have "subVectors \<lparr>vx = 2 * sin r, vy = - (2 * cos r), vz = 0\<rparr> \<lparr>vx = 0, vy = 0, vz = 0\<rparr>
          = \<lparr>vx = 2 * sin r, vy = - (2 * cos r), vz = 0\<rparr>"
    by (simp add: subVectors_def)
  then show ?thesis
    by (simp add: calculateAngleFromMouse_def bobWorldPosition_fields normalize_def vlength_bob
        Let_def)
qed

lemma angle_of_bob_cases:
  assumes "- pi \<le> a" "a \<le> pi"
  shows "calculateAngleFromMouse (bobWorldPosition a) =
           (if - (pi / 2) < a then a - pi / 2 else a + 3 * pi / 2)"
proof (cases "- (pi / 2) < a")
  case True
  have "atan2 (sin (a - pi / 2)) (cos (a - pi / 2)) = a - pi / 2"
  proof (rule atan2_polar)
    show "- pi < a - pi / 2" using True by linarith
    show "a - pi / 2 \<le> pi" using assms(2) pi_gt_zero by linarith
  qed
  then show ?thesis using True by (simp add: angle_of_bob sin_diff cos_diff)
next
  case False
  have e: "sin (a + 3 * pi / 2) = - cos a" "cos (a + 3 * pi / 2) = sin a"
  proof -
    have "a + 3 * pi / 2 = (a + pi / 2) + pi" by simp
    then show "sin (a + 3 * pi / 2) = - cos a" "cos (a + 3 * pi / 2) = sin a"
      by (simp_all only: sin_periodic_pi cos_periodic_pi) (simp_all add: sin_add cos_add)
  qed
  have "atan2 (sin (a + 3 * pi / 2)) (cos (a + 3 * pi / 2)) = a + 3 * pi / 2"
  proof (rule atan2_polar)
    show "- pi < a + 3 * pi / 2" using assms(1) pi_gt_zero by linarith
    show "a + 3 * pi / 2 \<le> pi" using False by linarith
  qed
  then show ?thesis using False by (simp add: angle_of_bob e)
qed


section \<open>The grab test\<close>

lemma handlePointerMove_last:
  "handlePointerMove q (handlePointerMove p s) = handlePointerMove q s"
  by (simp add: handlePointerMove_def Let_def)

lemma releasedAtBottom_fields:
  "releasedAtBottom =
     \<lparr>isDragging = False, isClickedDown = False, angle = - (pi / 2), velocity = 0,
      amplitude = pi / 2, lastGravityOn = True, rotation_z = 0\<rparr>"
  by (simp add: releasedAtBottom_def handlePointerUp_def handlePointerDown_def distanceTo_def
      subVectors_def vlength_def sphere_position_def length_rod_def calculateAngleFromMouse_def
      normalize_def atan2_def initialPendulum_def Let_def)

lemma releasedAtRight_fields:
  "releasedAtRight =
     \<lparr>isDragging = False, isClickedDown = False, angle = pi / 2, velocity = 0,
      amplitude = pi / 2, lastGravityOn = True, rotation_z = pi / 2\<rparr>"
  by (simp add: releasedAtRight_def handlePointerUp_def handlePointerDown_def
      handlePointerMove_def distanceTo_def
      subVectors_def vlength_def sphere_position_def length_rod_def calculateAngleFromMouse_def
      normalize_def atan2_def initialPendulum_def Let_def)

lemma far_from_local_position:
  "\<not> distanceTo \<lparr>vx = 2, vy = 0, vz = 0\<rparr> sphere_position < 0.5"
proof -
  have d: "distanceTo \<lparr>vx = 2, vy = 0, vz = 0\<rparr> sphere_position = sqrt 8"
    by (simp add: distanceTo_def subVectors_def vlength_def sphere_position_def length_rod_def)
  have "(1::real) \<le> sqrt 8" by (rule real_le_rsqrt) simp
  then show ?thesis unfolding d by linarith
qed

text \<open>
  Claim C6 says that a pointer-down starts a drag exactly when the intersection point is
  less than 0.5 from where the bob is currently drawn. \<open>handlePointerDown\<close> measures
  the distance to \<open>sphere.current.position\<close>, the bob's position inside the pivot group,
  which is \<open>(0, -2, 0)\<close> whatever the pivot's rotation; when the test passes it sets
  \<open>isDragging\<close> and \<open>isClickedDown\<close>, velocity 0, the pointer angle and its absolute
  value as amplitude, and otherwise it leaves the state alone. In \<open>releasedAtRight\<close> the
  pivot is turned by \<open>pi / 2\<close> and the bob is drawn at \<open>(2, 0, 0)\<close>: a pointer-down at
  that very point, at distance 0 from the drawn bob, starts no drag.
\<close>

theorem grab_test_at_rendered_bob:
  "handlePointerDown p s =
     (if distanceTo p sphere_position < 0.5
      then s\<lparr>isDragging := True, isClickedDown := True, velocity := 0,
             angle := calculateAngleFromMouse p, amplitude := \<bar>calculateAngleFromMouse p\<bar>\<rparr>
      else s) \<and>
   rotation_z releasedAtRight = pi / 2 \<and>
   bobWorldPosition (rotation_z releasedAtRight) = \<lparr>vx = 2, vy = 0, vz = 0\<rparr> \<and>
   distanceTo \<lparr>vx = 2, vy = 0, vz = 0\<rparr> (bobWorldPosition (rotation_z releasedAtRight)) = 0 \<and>
   handlePointerDown \<lparr>vx = 2, vy = 0, vz = 0\<rparr> releasedAtRight = releasedAtRight \<and>
   \<not> isDragging (handlePointerDown \<lparr>vx = 2, vy = 0, vz = 0\<rparr> releasedAtRight)"
proof -
  have a: "handlePointerDown p s =
     (if distanceTo p sphere_position < 0.5
      then s\<lparr>isDragging := True, isClickedDown := True, velocity := 0,
             angle := calculateAngleFromMouse p, amplitude := \<bar>calculateAngleFromMouse p\<bar>\<rparr>
      else s)"
    by (simp add: handlePointerDown_def Let_def)
  have r: "rotation_z releasedAtRight = pi / 2" by (simp add: releasedAtRight_fields)
  have b: "bobWorldPosition (rotation_z releasedAtRight) = \<lparr>vx = 2, vy = 0, vz = 0\<rparr>"
    unfolding r by (simp add: bobWorldPosition_fields)
  have d: "distanceTo \<lparr>vx = 2, vy = 0, vz = 0\<rparr> (bobWorldPosition (rotation_z releasedAtRight)) = 0"
    unfolding b by (simp add: distanceTo_def subVectors_def vlength_def)
  have n: "handlePointerDown \<lparr>vx = 2, vy = 0, vz = 0\<rparr> releasedAtRight = releasedAtRight"
    using far_from_local_position by (simp add: handlePointerDown_def Let_def)
  have i: "\<not> isDragging (handlePointerDown \<lparr>vx = 2, vy = 0, vz = 0\<rparr> releasedAtRight)"
    unfolding n by (simp add: releasedAtRight_fields)
  from a r b d n i show ?thesis by blast
qed

section \<open>The pointer angle at the drawn bob\<close>

text \<open>
  Claim C7 says that \<open>calculateAngleFromMouse\<close> at the bob's drawn position gives back
  the pivot rotation. With the pivot at rotation 0 the bob hangs at \<open>(0, -2, 0)\<close> and the
  pointer angle there is \<open>- (pi / 2)\<close>, not 0.
\<close>

theorem pointer_angle_counterexample:
  "calculateAngleFromMouse (bobWorldPosition 0) \<noteq> 0"
  by (simp add: angle_of_bob atan2_def)

text \<open>
  Claim C7, amended. For a pivot rotation \<open>a\<close> in \<open>[-pi, pi]\<close>, the pointer angle at
  the bob's drawn position is \<open>a - pi / 2\<close> when \<open>- (pi / 2) < a\<close>, and
  \<open>a + 3 * pi / 2\<close> otherwise. \<open>handlePointerMove\<close> adds \<open>pi / 2\<close>: during a drag, a move
  to the drawn bob writes \<open>a\<close> itself into angle and pivot rotation when
  \<open>- (pi / 2) < a\<close>, and \<open>a + 2 * pi\<close>, the same direction, otherwise.
\<close>

theorem pointer_angle_of_bob:
  assumes "- pi \<le> a" "a \<le> pi"
  shows "calculateAngleFromMouse (bobWorldPosition a) =
           (if - (pi / 2) < a then a - pi / 2 else a + 3 * pi / 2) \<and>
         (isDragging s \<and> isClickedDown s \<longrightarrow>
            angle (handlePointerMove (bobWorldPosition a) s) =
              (if - (pi / 2) < a then a else a + 2 * pi) \<and>
            rotation_z (handlePointerMove (bobWorldPosition a) s) =
              (if - (pi / 2) < a then a else a + 2 * pi))"
proof -
  have c: "calculateAngleFromMouse (bobWorldPosition a) =
           (if - (pi / 2) < a then a - pi / 2 else a + 3 * pi / 2)"
    using assms by (rule angle_of_bob_cases)
  have m: "isDragging s \<and> isClickedDown s \<longrightarrow>
            angle (handlePointerMove (bobWorldPosition a) s) =
              (if - (pi / 2) < a then a else a + 2 * pi) \<and>
            rotation_z (handlePointerMove (bobWorldPosition a) s) =
              (if - (pi / 2) < a then a else a + 2 * pi)"
    by (simp add: handlePointerMove_def Let_def c)
  from c m show ?thesis by blast
qed

text \<open>The hypotheses of C7 hold at rotation \<open>pi / 4\<close>, in the drag begun on the resting bob.\<close>

theorem pointer_angle_of_bob_witness:
  "- pi \<le> pi / 4 \<and> pi / 4 \<le> pi \<and>
   calculateAngleFromMouse (bobWorldPosition (pi / 4)) = - (pi / 4) \<and>
   isDragging (handlePointerDown \<lparr>vx = 0, vy = - 2, vz = 0\<rparr> initialPendulum) \<and>
   isClickedDown (handlePointerDown \<lparr>vx = 0, vy = - 2, vz = 0\<rparr> initialPendulum) \<and>
   angle (handlePointerMove (bobWorldPosition (pi / 4))
            (handlePointerDown \<lparr>vx = 0, vy = - 2, vz = 0\<rparr> initialPendulum)) = pi / 4"
proof -
  have h: "- pi \<le> pi / 4" "pi / 4 \<le> pi" by simp_all
  have g: "isDragging (handlePointerDown \<lparr>vx = 0, vy = - 2, vz = 0\<rparr> initialPendulum)"
    "isClickedDown (handlePointerDown \<lparr>vx = 0, vy = - 2, vz = 0\<rparr> initialPendulum)"
    by (simp_all add: handlePointerDown_def distanceTo_def subVectors_def vlength_def
        sphere_position_def length_rod_def Let_def)
  from pointer_angle_of_bob [OF h, of "handlePointerDown \<lparr>vx = 0, vy = - 2, vz = 0\<rparr> initialPendulum"]
    h g show ?thesis by simp
qed

section \<open>The range of the gravity-off oscillation\<close>

text \<open>
  Claim C8 says that the gravity-off angle stays in \<open>[-amplitude, amplitude]\<close> for any
  fixed amplitude. From \<open>releasedAtBottom\<close> the first frame under the initial props
  stores the angle \<open>- (pi / 2)\<close> as the amplitude; the second frame, at clock 0, keeps
  that amplitude and sets the angle to 0, which is not between \<open>pi / 2\<close> and
  \<open>- (pi / 2)\<close>.
\<close>

theorem oscillation_interval_counterexample:
  "amplitude (fst (useFrame initialProps 0 releasedAtBottom)) = - (pi / 2) \<and>
   angle (fst (useFrame initialProps 0 (fst (useFrame initialProps 0 releasedAtBottom)))) = 0 \<and>
   \<not> (- amplitude (fst (useFrame initialProps 0 releasedAtBottom))
          \<le> angle (fst (useFrame initialProps 0 (fst (useFrame initialProps 0 releasedAtBottom)))) \<and>
        angle (fst (useFrame initialProps 0 (fst (useFrame initialProps 0 releasedAtBottom))))
          \<le> amplitude (fst (useFrame initialProps 0 releasedAtBottom)))"
  using pi_gt_zero
  by (simp add: releasedAtBottom_fields useFrame_def initialProps_def Let_def not_le)

text \<open>
  Claim C8, amended. In a gravity-off frame the new angle is at most the magnitude of the
  amplitude the frame uses: it lies in \<open>[-|amplitude|, |amplitude|]\<close> at every clock
  reading, and in \<open>[-amplitude, amplitude]\<close> when the amplitude is not negative. The
  frame keeps the stored amplitude unless it is the frame that sees gravity go off.
\<close>

theorem oscillation_bounded:
  assumes "isSwinging props" "\<not> isDragging s" "\<not> gravityOn props"
  shows "\<bar>angle (fst (useFrame props now s))\<bar> \<le> \<bar>amplitude s\<bar> \<and>
         (0 \<le> amplitude s \<longrightarrow>
            - amplitude s \<le> angle (fst (useFrame props now s)) \<and>
            angle (fst (useFrame props now s)) \<le> amplitude s) \<and>
         (\<not> lastGravityOn s \<longrightarrow> amplitude (fst (useFrame props now s)) = amplitude s)"
proof -
  have e: "angle (fst (useFrame props now s)) = amplitude s * sin (real_of_int now * 0.002)"
    using assms by (simp add: useFrame_def Let_def)
  have "\<bar>amplitude s * sin (real_of_int now * 0.002)\<bar>
          = \<bar>amplitude s\<bar> * \<bar>sin (real_of_int now * 0.002)\<bar>"
    by (rule abs_mult)
  also have "\<dots> \<le> \<bar>amplitude s\<bar> * 1"
    by (intro mult_left_mono) simp_all
  finally have b: "\<bar>angle (fst (useFrame props now s))\<bar> \<le> \<bar>amplitude s\<bar>"
    by (simp add: e)
  have k: "\<not> lastGravityOn s \<longrightarrow> amplitude (fst (useFrame props now s)) = amplitude s"
    using assms by (simp add: useFrame_def Let_def)
  from b k show ?thesis by linarith
qed

text \<open>The hypotheses of C8 hold in \<open>releasedAtBottom\<close> under the initial props.\<close>

theorem oscillation_bounded_witness:
  "isSwinging initialProps \<and> \<not> isDragging releasedAtBottom \<and> \<not> gravityOn initialProps \<and>
   \<bar>angle (fst (useFrame initialProps 250 releasedAtBottom))\<bar> \<le> pi / 2"
proof -
  have h: "isSwinging initialProps" "\<not> isDragging releasedAtBottom" "\<not> gravityOn initialProps"
    by (simp_all add: initialProps_def releasedAtBottom_fields)
  from oscillation_bounded [OF h, of 250] h show ?thesis
    by (simp add: releasedAtBottom_fields)
qed


section \<open>The amplitude over a run\<close>






end
